theory Spec2Isabelle
  imports Main
begin

section \<open>Strings\<close>

text \<open>
  Python strings are modelled as HOL strings, that is lists of 8-bit characters, read
  as the code points 0..255.  \<open>str.lower\<close> on that range maps \<open>A..Z\<close> and the
  upper-case letters of the upper half (192..222 without the multiplication sign 215)
  to the character 32 places further on and leaves every other character alone.
\<close>

definition lower_char :: "char \<Rightarrow> char" where
  "lower_char c =
     (let n = (of_char c :: nat) in
      if (65 \<le> n \<and> n \<le> 90) \<or> (192 \<le> n \<and> n \<le> 222 \<and> n \<noteq> 215)
      then char_of (n + 32) else c)"

definition lower :: "string \<Rightarrow> string" where
  "lower s = map lower_char s"

text \<open>\<open>s.startswith(k)\<close>, and the substring test \<open>k in s\<close>.\<close>

fun starts_with :: "string \<Rightarrow> string \<Rightarrow> bool" where
  "starts_with s [] = True"
| "starts_with [] (k # ks) = False"
| "starts_with (c # cs) (k # ks) = (c = k \<and> starts_with cs ks)"

fun str_in :: "string \<Rightarrow> string \<Rightarrow> bool" where
  "str_in k [] = (k = [])"
| "str_in k (c # cs) = (starts_with (c # cs) k \<or> str_in k cs)"

section \<open>Keyword and skill generator\<close>

text \<open>
  \<^verbatim>\<open>generate_keywords\<close>: the base list is extended by up to three pairs of terms
  and the first five entries of the extended list are returned.
\<close>

definition base_keywords :: "string list" where
  "base_keywords =
     [''Third Party Risk Management'',
      ''Vendor Risk Assessment'',
      ''Supplier Risk Analysis'',
      ''Risk Mitigation'',
      ''Compliance Management'']"

definition generate_keywords :: "string \<Rightarrow> string \<Rightarrow> string list" where
  "generate_keywords job_title query =
     (let k0 = base_keywords;
          k1 = (if str_in ''senior'' (lower job_title)
                then k0 @ [''Senior Risk Analyst'', ''Risk Leadership''] else k0);
          k2 = (if str_in ''analyst'' (lower job_title)
                then k1 @ [''Risk Analysis'', ''Data Analysis''] else k1);
          k3 = (if str_in ''manager'' (lower job_title)
                then k2 @ [''Risk Management'', ''Team Leadership''] else k2)
      in take 5 k3)"

definition base_technical_skills :: "string list" where
  "base_technical_skills =
     [''GRC Tools (Archer, ServiceNow)'',
      ''Risk Assessment Frameworks'',
      ''SQL and Data Analysis'',
      ''Excel/Advanced Analytics'',
      ''Regulatory Compliance (SOX, GDPR)'']"

definition generate_technical_skills :: "string \<Rightarrow> string \<Rightarrow> string list" where
  "generate_technical_skills job_title query =
     (let t0 = base_technical_skills;
          t1 = (if str_in ''senior'' (lower job_title)
                then t0 @ [''Risk Modeling'', ''Quantitative Analysis''] else t0);
          t2 = (if str_in ''analyst'' (lower job_title)
                then t1 @ [''Python/R'', ''Business Intelligence''] else t1)
      in take 5 t2)"

section \<open>Data model\<close>

text \<open>
  The pydantic models.  A timestamp is a reading of the clock, kept as a natural
  number; \<open>id\<close> is the string of the UUID drawn for the listing.
\<close>

record JobListing =
  listing_id :: string
  job_title :: string
  company_name :: string
  job_link :: string
  location :: string
  keywords_list :: "string list"
  technical_skills :: "string list"
  posted_date :: "string option"
  source :: string
  scraped_at :: nat

record JobSearchRequest =
  req_query :: string
  req_location :: string
  req_days_filter :: int

record JobSearchResult =
  jobs :: "JobListing list"
  total_count :: int
  search_query :: string
  search_date :: nat

text \<open>
  Every raised exception of the source is a value carrying its message.  \<open>Exception m\<close>
  is an instance of the class \<open>Exception\<close>; \<open>BaseException m\<close> is one that is not
  (\<open>KeyboardInterrupt\<close>, \<open>SystemExit\<close>, \<open>asyncio.CancelledError\<close>).
\<close>

datatype error = Exception string | BaseException string

fun str_of_error :: "error \<Rightarrow> string" where
  "str_of_error (Exception m) = m"
| "str_of_error (BaseException m) = m"

text \<open>
  \<^verbatim>\<open>except Exception\<close> with a handler that logs and goes on with the value \<open>v\<close>:
  an instance of \<open>Exception\<close> is caught, anything else passes through the handler.
\<close>

fun except_Exception :: "error \<Rightarrow> 'a \<Rightarrow> error + 'a" where
  "except_Exception (Exception m) v = Inr v"
| "except_Exception (BaseException m) v = Inl (BaseException m)"

text \<open>What a handler hands back to the framework: a body with status 200, an
  \<open>HTTPException\<close> with its status code and detail, or an exception that its
  \<open>except Exception\<close> does not catch and that leaves the handler.\<close>

datatype 'a http_response = Ok200 'a | HTTPException nat string | Uncaught error

text \<open>\<^verbatim>\<open>except Exception as e: raise HTTPException(status_code=500, detail=str(e))\<close>.\<close>

fun except_raise_500 :: "error \<Rightarrow> 'a http_response" where
  "except_raise_500 (Exception m) = HTTPException 500 (str_of_error (Exception m))"
| "except_raise_500 (BaseException m) = Uncaught (BaseException m)"

section \<open>The outside world\<close>

text \<open>
  One \<open>div.g\<close> block of a result page, as the scraper reads it: the text of its first
  \<open>h3\<close> (if there is one), its first \<open>a\<close> element (if there is one) with its
  \<open>href\<close> attribute (if it has one), and the text of its first \<open>span.st\<close>.
  The parsing of the markup itself is the HTML library's and is not modelled.
\<close>

record result_block =
  h3_text :: "string option"
  a_href :: "string option option"
  st_text :: "string option"

text \<open>
  The outcome of one \<open>session.get\<close>: the call raises, or a response arrives with a
  status and a body; reading and parsing the body raises or yields the page's
  \<open>div.g\<close> blocks in document order.
\<close>

datatype http_outcome =
  GetRaises error
| Response nat "error + result_block list"

text \<open>The e-mail as composed: the headers, and the values that are interpolated into
  the fixed HTML template (the date, the number of postings and one row per posting).\<close>

record report_row =
  cell_title :: string
  cell_company :: string
  cell_link :: string
  cell_keywords :: string
  cell_skills :: string

record message =
  msg_from :: string
  msg_to :: string
  msg_subject :: string
  body_date :: nat
  body_count :: nat
  body_rows :: "report_row list"

datatype smtp_op =
  SmtpConnect string nat
| SmtpStartTls
| SmtpLogin string string
| SmtpSendMail string string message
| SmtpQuit

text \<open>The effects a run performs on the outside world, in the order it performs them.\<close>

datatype event =
  HttpGet string
| Sleep nat
| DbInsert JobSearchResult
| DbFind
| Smtp smtp_op

text \<open>
  The world answers each effect.  Every answer may depend on the number of effects
  performed before it (the first argument), so that the same request can be answered
  differently at different moments.  \<open>email_password\<close> is the value of
  \<open>EMAIL_PASSWORD\<close>, fixed when the module is loaded.
\<close>

record world =
  http_get :: "nat \<Rightarrow> string \<Rightarrow> http_outcome"
  uuid4 :: "nat \<Rightarrow> string"
  clock :: "nat \<Rightarrow> nat"
  db_fault :: "nat \<Rightarrow> error option"
  mime_fault :: "nat \<Rightarrow> error option"
  smtp_fault :: "nat \<Rightarrow> smtp_op \<Rightarrow> error option"
  email_password :: string

text \<open>
  The state a run threads through: the effects performed so far (oldest first), the
  documents of the collection \<open>job_search_results\<close> in insertion order, and the number
  of UUIDs drawn.  The collection is written only by \<open>insert_one\<close> of the dictionary of
  a \<open>JobSearchResult\<close>, so a document is modelled by the result it came from.
  Log lines are not recorded.
\<close>

record state =
  trace :: "event list"
  store :: "JobSearchResult list"
  drawn :: nat

definition emit :: "event \<Rightarrow> state \<Rightarrow> state" where
  "emit e s = s\<lparr>trace := trace s @ [e]\<rparr>"

definition now :: "world \<Rightarrow> state \<Rightarrow> nat" where
  "now w s = clock w (length (trace s))"

definition EMAIL_ADDRESS :: string where
  "EMAIL_ADDRESS = ''ananya4bh@gmail.com''"

definition EMAIL_SUBJECT :: string where
  "EMAIL_SUBJECT = ''TPRM jobs for today''"

section \<open>Search fetcher\<close>

subsection \<open>Request URL\<close>

text \<open>
  \<^verbatim>\<open>urllib.parse.quote\<close> with its default \<open>safe='/'\<close>: the string is encoded as UTF-8
  (one byte below 128, two bytes from 128 to 255), and every byte other than an ASCII
  letter, a digit or one of \<open>_ . - ~ /\<close> is written as \<open>%\<close> and two upper-case
  hexadecimal digits.
\<close>

definition hex_digit :: "nat \<Rightarrow> char" where
  "hex_digit d = (''0123456789ABCDEF'') ! (d mod 16)"

definition utf8_bytes :: "char \<Rightarrow> nat list" where
  "utf8_bytes c =
     (let n = (of_char c :: nat) in
      if n < 128 then [n] else [192 + n div 64, 128 + n mod 64])"

definition quote_safe :: "nat \<Rightarrow> bool" where
  "quote_safe b \<longleftrightarrow>
     (65 \<le> b \<and> b \<le> 90) \<or> (97 \<le> b \<and> b \<le> 122) \<or> (48 \<le> b \<and> b \<le> 57) \<or>
     b = 95 \<or> b = 46 \<or> b = 45 \<or> b = 126 \<or> b = 47"

definition quote_byte :: "nat \<Rightarrow> string" where
  "quote_byte b =
     (if quote_safe b then [char_of b]
      else [CHR ''%'', hex_digit (b div 16), hex_digit (b mod 16)])"

definition quote :: "string \<Rightarrow> string" where
  "quote s = concat (map quote_byte (concat (map utf8_bytes s)))"

definition google_url :: "string \<Rightarrow> string" where
  "google_url template =
     ''https://www.google.com/search?q='' @ quote template @ ''&tbm=nws''"

text \<open>The six query templates; only the first one mentions the caller's query.\<close>

definition search_queries :: "string \<Rightarrow> string list" where
  "search_queries query =
     [[CHR 0x22] @ query @ [CHR 0x22] @
        '' jobs in Bangalore India OR remote site:linkedin.com OR site:naukri.com OR site:indeed.com'',
      [CHR 0x22] @ ''Third Party Risk'' @ [CHR 0x22] @ '' OR '' @
        [CHR 0x22] @ ''Vendor Risk'' @ [CHR 0x22] @ '' OR '' @
        [CHR 0x22] @ ''Supplier Risk'' @ [CHR 0x22] @ '' jobs Bangalore India OR remote'',
      [CHR 0x22] @ ''TPRM'' @ [CHR 0x22] @ '' OR '' @
        [CHR 0x22] @ ''Third Party Risk Management'' @ [CHR 0x22] @
        '' jobs Bangalore OR remote product company'',
      [CHR 0x22] @ ''Risk Assessment'' @ [CHR 0x22] @
        '' analyst jobs Bangalore India OR remote 6 years experience'',
      [CHR 0x22] @ ''Third Party Risk'' @ [CHR 0x22] @ '' remote jobs India product company'',
      [CHR 0x22] @ ''Vendor Risk Management'' @ [CHR 0x22] @ '' remote OR Bangalore India jobs'']"

subsection \<open>Company name\<close>

text \<open>
  \<open>\s\<close> of the regular expression and the characters \<open>strip\<close> removes are the same
  set: 9..13, 28..32, 133 and 160 within the 8-bit range.
\<close>

definition is_space :: "char \<Rightarrow> bool" where
  "is_space c =
     (let n = (of_char c :: nat) in
      (9 \<le> n \<and> n \<le> 13) \<or> (28 \<le> n \<and> n \<le> 32) \<or> n = 133 \<or> n = 160)"

definition strip :: "string \<Rightarrow> string" where
  "strip s = rev (dropWhile is_space (rev (dropWhile is_space s)))"

text \<open>The character class \<open>[A-Za-z\s&.]\<close>.\<close>

definition company_char :: "char \<Rightarrow> bool" where
  "company_char c =
     (let n = (of_char c :: nat) in
      (65 \<le> n \<and> n \<le> 90) \<or> (97 \<le> n \<and> n \<le> 122) \<or> is_space c \<or>
      c = CHR ''&'' \<or> c = CHR ''.'')"

text \<open>
  A match of \<open>at\s+([A-Za-z\s&.]+)\<close> that begins at the head of \<open>s\<close>, giving group 1.
  After \<open>at\<close> comes the longest run of class characters; it must begin with white
  space and hold at least two characters.  The greedy \<open>\s+\<close> takes all the leading
  white space of the run and the group the rest of it; when the run is white space
  only, \<open>\s+\<close> gives its last character back to the group.
\<close>

definition match_company_at :: "string \<Rightarrow> string option" where
  "match_company_at s =
     (if starts_with s ''at'' then
        (let run = takeWhile company_char (drop 2 s);
             ws = takeWhile is_space run
         in if ws \<noteq> [] \<and> 2 \<le> length run
            then Some (if length ws < length run then drop (length ws) run else [last run])
            else None)
      else None)"

text \<open>\<^verbatim>\<open>re.search\<close>: the match at the leftmost position that has one.\<close>

fun re_search_company :: "string \<Rightarrow> string option" where
  "re_search_company [] = None"
| "re_search_company (c # cs) =
     (case match_company_at (c # cs) of
        Some g \<Rightarrow> Some g
      | None \<Rightarrow> re_search_company cs)"

definition extract_company_name :: "string option \<Rightarrow> string" where
  "extract_company_name desc_elem =
     (case desc_elem of
        None \<Rightarrow> ''Company Name Not Found''
      | Some desc_text \<Rightarrow>
          (case re_search_company desc_text of
             None \<Rightarrow> ''Company Name Not Found''
           | Some g \<Rightarrow> strip g))"

subsection \<open>One result block\<close>

text \<open>
  Constructing a \<open>JobListing\<close>: the two default factories draw a UUID and read the
  clock, and validation rejects a \<open>job_link\<close> that is \<open>None\<close>.
\<close>

definition new_JobListing ::
  "world \<Rightarrow> string \<Rightarrow> string \<Rightarrow> string option \<Rightarrow> string list \<Rightarrow> string list \<Rightarrow>
   state \<Rightarrow> (error + JobListing) \<times> state" where
  "new_JobListing w title company link kws skills s =
     (let s' = s\<lparr>drawn := Suc (drawn s)\<rparr> in
      case link of
        None \<Rightarrow> (Inl (Exception ''job_link: none is not an allowed value''), s')
      | Some l \<Rightarrow>
          (Inr \<lparr>listing_id = uuid4 w (drawn s),
                job_title = title,
                company_name = company,
                job_link = l,
                location = ''Bangalore, India / Remote'',
                keywords_list = kws,
                technical_skills = skills,
                posted_date = Some ''Recent (24 hours)'',
                source = ''google_search'',
                scraped_at = now w s\<rparr>, s'))"

text \<open>
  The body of the inner loop with its \<open>try\<close> and \<open>except Exception\<close>: a block that
  lacks the \<open>h3\<close> or the \<open>a\<close> is passed over, and a block whose listing cannot be
  constructed is logged and passed over.
\<close>

definition parse_result ::
  "world \<Rightarrow> string \<Rightarrow> result_block \<Rightarrow> JobListing list \<Rightarrow> state \<Rightarrow>
   (error + JobListing list) \<times> state" where
  "parse_result w query result jobs_acc s =
     (case (h3_text result, a_href result) of
        (Some title, Some href) \<Rightarrow>
          (case new_JobListing w title (extract_company_name (st_text result)) href
                  (generate_keywords title query) (generate_technical_skills title query) s of
             (Inl e, s') \<Rightarrow> (except_Exception e jobs_acc, s')
           | (Inr job, s') \<Rightarrow> (Inr (jobs_acc @ [job]), s'))
      | _ \<Rightarrow> (Inr jobs_acc, s))"

fun parse_results ::
  "world \<Rightarrow> string \<Rightarrow> result_block list \<Rightarrow> JobListing list \<Rightarrow> state \<Rightarrow>
   (error + JobListing list) \<times> state" where
  "parse_results w query [] jobs_acc s = (Inr jobs_acc, s)"
| "parse_results w query (result # rest) jobs_acc s =
     (case parse_result w query result jobs_acc s of
        (Inl e, s') \<Rightarrow> (Inl e, s')
      | (Inr jobs_acc', s') \<Rightarrow> parse_results w query rest jobs_acc' s')"

subsection \<open>One template, and all of them\<close>

text \<open>
  The body of the outer loop with its \<open>try\<close> and \<open>except Exception\<close>.  The pause is
  the last statement of the branch for status 200; an exception of the request or of
  reading the body leaves the \<open>try\<close> before it, and another status skips the branch.
  The handler logs and goes on to the next template with the postings collected so far.
  (What the inner loop passes on is never an instance of \<open>Exception\<close>: its own handler
  has caught those.)
\<close>

definition search_one ::
  "world \<Rightarrow> string \<Rightarrow> string \<Rightarrow> JobListing list \<Rightarrow> state \<Rightarrow>
   (error + JobListing list) \<times> state" where
  "search_one w query template jobs_acc s =
     (let google = google_url template;
          s1 = emit (HttpGet google) s
      in case http_get w (length (trace s)) google of
           GetRaises e \<Rightarrow> (except_Exception e jobs_acc, s1)
         | Response status body \<Rightarrow>
             if status = 200 then
               (case body of
                  Inl e \<Rightarrow> (except_Exception e jobs_acc, s1)
                | Inr job_results \<Rightarrow>
                    (case parse_results w query (take 10 job_results) jobs_acc s1 of
                       (Inl e, s2) \<Rightarrow> (except_Exception e jobs_acc, s2)
                     | (Inr jobs_acc', s2) \<Rightarrow> (Inr jobs_acc', emit (Sleep 1) s2)))
             else (Inr jobs_acc, s1))"

fun search_all ::
  "world \<Rightarrow> string \<Rightarrow> string list \<Rightarrow> JobListing list \<Rightarrow> state \<Rightarrow>
   (error + JobListing list) \<times> state" where
  "search_all w query [] jobs_acc s = (Inr jobs_acc, s)"
| "search_all w query (template # rest) jobs_acc s =
     (case search_one w query template jobs_acc s of
        (Inl e, s') \<Rightarrow> (Inl e, s')
      | (Inr jobs_acc', s') \<Rightarrow> search_all w query rest jobs_acc' s')"

text \<open>\<^verbatim>\<open>search_jobs_google\<close>: the postings, or the exception that neither handler
  catches.\<close>

definition search_jobs_google ::
  "world \<Rightarrow> string \<Rightarrow> string \<Rightarrow> int \<Rightarrow> state \<Rightarrow> (error + JobListing list) \<times> state" where
  "search_jobs_google w query location_hint days_filter s =
     search_all w query (search_queries query) [] s"

section \<open>Relevance filter\<close>

definition relevance_keywords :: "string list" where
  "relevance_keywords =
     [''risk'', ''compliance'', ''vendor'', ''supplier'', ''third party'', ''tprm'']"

definition is_relevant :: "JobListing \<Rightarrow> bool" where
  "is_relevant job =
     list_ex (\<lambda>keyword. str_in keyword (lower (job_title job))) relevance_keywords"

text \<open>The loop that both callers write out: append each relevant job, in order.\<close>

fun relevant_loop :: "JobListing list \<Rightarrow> JobListing list \<Rightarrow> JobListing list" where
  "relevant_loop [] relevant_jobs = relevant_jobs"
| "relevant_loop (job # rest) relevant_jobs =
     relevant_loop rest (if is_relevant job then relevant_jobs @ [job] else relevant_jobs)"

definition relevance_filter :: "JobListing list \<Rightarrow> JobListing list" where
  "relevance_filter jobs_in = relevant_loop jobs_in []"

section \<open>Mailer\<close>

text \<open>\<^verbatim>\<open>", ".join(xs)\<close>.\<close>

fun join :: "string \<Rightarrow> string list \<Rightarrow> string" where
  "join sep [] = []"
| "join sep [x] = x"
| "join sep (x # y # ys) = x @ sep @ join sep (y # ys)"

definition render_row :: "JobListing \<Rightarrow> report_row" where
  "render_row job =
     \<lparr>cell_title = job_title job,
      cell_company = company_name job,
      cell_link = job_link job,
      cell_keywords = join '', '' (take 5 (keywords_list job)),
      cell_skills = join '', '' (take 5 (technical_skills job))\<rparr>"

definition compose :: "world \<Rightarrow> JobListing list \<Rightarrow> string \<Rightarrow> state \<Rightarrow> message" where
  "compose w jobs_in recipient_email s =
     \<lparr>msg_from = EMAIL_ADDRESS,
      msg_to = recipient_email,
      msg_subject = EMAIL_SUBJECT,
      body_date = now w s,
      body_count = length jobs_in,
      body_rows = map render_row jobs_in\<rparr>"

text \<open>
  A call of the mail relay: the call is an effect, and the world says whether it raises.
  Building the MIME message and turning it into text touch nothing outside, but the
  world may make either of them raise as well.
\<close>

definition smtp_call :: "world \<Rightarrow> smtp_op \<Rightarrow> state \<Rightarrow> (error + unit) \<times> state" where
  "smtp_call w op s =
     (case smtp_fault w (length (trace s)) op of
        Some e \<Rightarrow> (Inl e, emit (Smtp op) s)
      | None \<Rightarrow> (Inr (), emit (Smtp op) s))"

definition mime_step :: "world \<Rightarrow> state \<Rightarrow> error + unit" where
  "mime_step w s =
     (case mime_fault w (length (trace s)) of Some e \<Rightarrow> Inl e | None \<Rightarrow> Inr ())"

text \<open>The statements inside the \<open>try\<close> of \<^verbatim>\<open>send_email_report\<close>, in order.\<close>

definition send_email_try ::
  "world \<Rightarrow> JobListing list \<Rightarrow> string \<Rightarrow> state \<Rightarrow> (error + bool) \<times> state" where
  "send_email_try w jobs_in recipient_email s =
     (let msg = compose w jobs_in recipient_email s in
      case mime_step w s of
        Inl e \<Rightarrow> (Inl e, s)
      | Inr _ \<Rightarrow>
      (case smtp_call w (SmtpConnect ''smtp.gmail.com'' 587) s of
        (Inl e, s1) \<Rightarrow> (Inl e, s1)
      | (Inr _, s1) \<Rightarrow>
      (case smtp_call w SmtpStartTls s1 of
        (Inl e, s2) \<Rightarrow> (Inl e, s2)
      | (Inr _, s2) \<Rightarrow>
      (case smtp_call w (SmtpLogin EMAIL_ADDRESS (email_password w)) s2 of
        (Inl e, s3) \<Rightarrow> (Inl e, s3)
      | (Inr _, s3) \<Rightarrow>
      (case mime_step w s3 of
        Inl e \<Rightarrow> (Inl e, s3)
      | Inr _ \<Rightarrow>
      (case smtp_call w (SmtpSendMail EMAIL_ADDRESS recipient_email msg) s3 of
        (Inl e, s4) \<Rightarrow> (Inl e, s4)
      | (Inr _, s4) \<Rightarrow>
      (case smtp_call w SmtpQuit s4 of
        (Inl e, s5) \<Rightarrow> (Inl e, s5)
      | (Inr _, s5) \<Rightarrow> (Inr True, s5))))))))"

text \<open>The \<open>try\<close> with its \<open>except Exception\<close>: an instance of \<open>Exception\<close> is logged
  and becomes \<open>False\<close>; any other exception reaches the caller.\<close>

definition send_email_report ::
  "world \<Rightarrow> JobListing list \<Rightarrow> string \<Rightarrow> state \<Rightarrow> (error + bool) \<times> state" where
  "send_email_report w jobs_in recipient_email s =
     (case send_email_try w jobs_in recipient_email s of
        (Inl e, s') \<Rightarrow> (except_Exception e False, s')
      | (Inr b, s') \<Rightarrow> (Inr b, s'))"

section \<open>Result store\<close>

text \<open>\<^verbatim>\<open>insert_one\<close>: the document is appended unless the call raises.\<close>

definition insert_one :: "world \<Rightarrow> JobSearchResult \<Rightarrow> state \<Rightarrow> (error + unit) \<times> state" where
  "insert_one w doc s =
     (case db_fault w (length (trace s)) of
        Some e \<Rightarrow> (Inl e, emit (DbInsert doc) s)
      | None \<Rightarrow> (Inr (), (emit (DbInsert doc) s)\<lparr>store := store s @ [doc]\<rparr>))"

text \<open>
  \<^verbatim>\<open>find().sort("search_date", -1).limit(10).to_list(10)\<close>: the ten documents with
  the latest dates, latest first.  The order among equal dates is the data base's
  choice; here the later insertion comes first.
\<close>

definition find_recent :: "world \<Rightarrow> state \<Rightarrow> (error + JobSearchResult list) \<times> state" where
  "find_recent w s =
     (case db_fault w (length (trace s)) of
        Some e \<Rightarrow> (Inl e, emit DbFind s)
      | None \<Rightarrow> (Inr (take 10 (rev (sort_key search_date (store s)))), emit DbFind s))"

section \<open>Pipeline run\<close>

text \<open>The statements inside the \<open>try\<close> of \<^verbatim>\<open>daily_job_search_task\<close>.  The value of
  \<^verbatim>\<open>send_email_report\<close> is not looked at.\<close>

definition daily_try :: "world \<Rightarrow> state \<Rightarrow> (error + unit) \<times> state" where
  "daily_try w s =
     (case search_jobs_google w ''Third Party Risk Assessment'' ''Bangalore India OR remote'' 7 s of
        (Inl e, s1) \<Rightarrow> (Inl e, s1)
      | (Inr found, s1) \<Rightarrow>
          (let relevant_jobs = relevance_filter found;
               job_search_result =
                 \<lparr>jobs = relevant_jobs,
                  total_count = int (length relevant_jobs),
                  search_query = ''Third Party Risk Assessment'',
                  search_date = now w s1\<rparr>
           in case insert_one w job_search_result s1 of
                (Inl e, s2) \<Rightarrow> (Inl e, s2)
              | (Inr _, s2) \<Rightarrow>
                  (case send_email_report w relevant_jobs EMAIL_ADDRESS s2 of
                     (Inl e, s3) \<Rightarrow> (Inl e, s3)
                   | (Inr sent, s3) \<Rightarrow> (Inr (), s3))))"

text \<open>The \<open>try\<close> with its \<open>except Exception\<close>, which logs the exception and
  returns.\<close>

definition daily_job_search_task :: "world \<Rightarrow> state \<Rightarrow> (error + unit) \<times> state" where
  "daily_job_search_task w s =
     (case daily_try w s of
        (Inl e, s') \<Rightarrow> (except_Exception e (), s')
      | (Inr u, s') \<Rightarrow> (Inr (), s'))"

section \<open>Request handlers\<close>

text \<open>\<^verbatim>\<open>POST /search-jobs\<close>.\<close>

definition search_jobs_endpoint ::
  "world \<Rightarrow> JobSearchRequest \<Rightarrow> state \<Rightarrow> JobSearchResult http_response \<times> state" where
  "search_jobs_endpoint w request s =
     (case search_jobs_google w (req_query request) (req_location request)
             (req_days_filter request) s of
        (Inl e, s1) \<Rightarrow> (except_raise_500 e, s1)
      | (Inr found, s1) \<Rightarrow>
          (let relevant_jobs = relevance_filter found
           in (Ok200 \<lparr>jobs = relevant_jobs,
                      total_count = int (length relevant_jobs),
                      search_query = req_query request,
                      search_date = now w s1\<rparr>, s1)))"

text \<open>\<^verbatim>\<open>GET /job-results\<close>.\<close>

definition get_job_results :: "world \<Rightarrow> state \<Rightarrow> JobSearchResult list http_response \<times> state" where
  "get_job_results w s =
     (case find_recent w s of
        (Inl e, s') \<Rightarrow> (except_raise_500 e, s')
      | (Inr results, s') \<Rightarrow> (Ok200 results, s'))"


section \<open>Notions used in the statements\<close>

fun is_smtp_event :: "event \<Rightarrow> bool" where
  "is_smtp_event (Smtp op) = True"
| "is_smtp_event e = False"

fun is_fetch_event :: "event \<Rightarrow> bool" where
  "is_fetch_event (HttpGet url) = True"
| "is_fetch_event (Sleep n) = True"
| "is_fetch_event e = False"

text \<open>The effects a computation added to the trace of the state \<open>s\<close> it started in.\<close>

definition new_events :: "state \<Rightarrow> state \<Rightarrow> event list" where
  "new_events s s' = drop (length (trace s)) (trace s')"

text \<open>
  The stages of a pipeline run that starts in \<open>s\<close>: its search; the postings the search
  returned (none if it did not return); the record the run builds from them; the state
  once that record is inserted; and the call of the mailer in that state.
\<close>

definition daily_search :: "world \<Rightarrow> state \<Rightarrow> (error + JobListing list) \<times> state" where
  "daily_search w s =
     search_jobs_google w ''Third Party Risk Assessment'' ''Bangalore India OR remote'' 7 s"

definition daily_found :: "world \<Rightarrow> state \<Rightarrow> JobListing list" where
  "daily_found w s = (case fst (daily_search w s) of Inl e \<Rightarrow> [] | Inr found \<Rightarrow> found)"

definition daily_result :: "world \<Rightarrow> state \<Rightarrow> JobSearchResult" where
  "daily_result w s =
     \<lparr>jobs = relevance_filter (daily_found w s),
      total_count = int (length (relevance_filter (daily_found w s))),
      search_query = ''Third Party Risk Assessment'',
      search_date = now w (snd (daily_search w s))\<rparr>"

definition daily_stored :: "world \<Rightarrow> state \<Rightarrow> state" where
  "daily_stored w s =
     (emit (DbInsert (daily_result w s)) (snd (daily_search w s)))
       \<lparr>store := store (snd (daily_search w s)) @ [daily_result w s]\<rparr>"

definition daily_mail :: "world \<Rightarrow> state \<Rightarrow> (error + bool) \<times> state" where
  "daily_mail w s =
     send_email_report w (jobs (daily_result w s)) EMAIL_ADDRESS (daily_stored w s)"

text \<open>A world none of whose answers raises anything but instances of \<open>Exception\<close>.\<close>

fun is_Exception :: "error \<Rightarrow> bool" where
  "is_Exception (Exception m) = True"
| "is_Exception (BaseException m) = False"


subsection \<open>Concrete worlds\<close>

definition s0 :: state where
  "s0 = \<lparr>trace = [], store = [], drawn = 0\<rparr>"

text \<open>A result page with two well-formed blocks.\<close>

definition two_block_page :: "result_block list" where
  "two_block_page =
     [\<lparr>h3_text = Some ''Senior Risk Analyst'',
       a_href = Some (Some ''https://example.com/job1''),
       st_text = Some ''Hiring at Tech Corp India''\<rparr>,
      \<lparr>h3_text = Some ''Graphic Designer'',
       a_href = Some (Some ''https://example.com/job2''),
       st_text = None\<rparr>]"

text \<open>The first request is answered with that page, every later one with status 404;
  the data base and the mail relay work.\<close>

definition world_ok :: world where
  "world_ok =
     \<lparr>http_get = (\<lambda>n url. if n = 0 then Response 200 (Inr two_block_page)
                            else Response 404 (Inr [])),
      uuid4 = (\<lambda>n. ''00000000-0000-4000-8000-000000000000''),
      clock = (\<lambda>n. n),
      db_fault = (\<lambda>n. None),
      mime_fault = (\<lambda>n. None),
      smtp_fault = (\<lambda>n op. None),
      email_password = ''app password''\<rparr>"

text \<open>The same world with a mail relay that raises on \<open>login\<close>.\<close>

definition world_login_fails :: world where
  "world_login_fails =
     world_ok\<lparr>smtp_fault :=
       (\<lambda>n op. case op of
                  SmtpLogin u p \<Rightarrow> Some (Exception ''535 bad credentials'')
                | _ \<Rightarrow> None)\<rparr>"

text \<open>The same world with a mail relay whose \<open>login\<close> is cut short by an interrupt.\<close>

definition world_login_interrupted :: world where
  "world_login_interrupted =
     world_ok\<lparr>smtp_fault :=
       (\<lambda>n op. case op of
                  SmtpLogin u p \<Rightarrow> Some (BaseException ''KeyboardInterrupt'')
                | _ \<Rightarrow> None)\<rparr>"

text \<open>The same world with a search provider that answers every request with status 503.\<close>

definition world_503 :: world where
  "world_503 = world_ok\<lparr>http_get := (\<lambda>n url. Response 503 (Inr two_block_page))\<rparr>"

definition sample_request :: JobSearchRequest where
  "sample_request =
     \<lparr>req_query = ''Third Party Risk Assessment'',
      req_location = ''Bangalore India OR remote'',
      req_days_filter = 1\<rparr>"

definition sample_jobs :: "JobListing list" where
  "sample_jobs =
     [\<lparr>listing_id = ''a'', job_title = ''Senior Risk Analyst'', company_name = ''Tech Corp India'',
       job_link = ''https://example.com/job1'', location = ''Bangalore, India / Remote'',
       keywords_list = [], technical_skills = [], posted_date = None,
       source = ''google_search'', scraped_at = 0\<rparr>,
      \<lparr>listing_id = ''b'', job_title = ''Graphic Designer'', company_name = ''Design Ltd'',
       job_link = ''https://example.com/job2'', location = ''Bangalore, India / Remote'',
       keywords_list = [], technical_skills = [], posted_date = None,
       source = ''google_search'', scraped_at = 0\<rparr>]"

section \<open>Substring test\<close>

lemma starts_with_iff: "starts_with s k \<longleftrightarrow> (\<exists>post. s = k @ post)"
  by (induction s k rule: starts_with.induct) auto

lemma str_in_iff: "str_in k s \<longleftrightarrow> (\<exists>pre post. s = pre @ k @ post)"
proof (induction s)
  case Nil
  show ?case by simp
next
  case (Cons c cs)
  show ?case
  proof
    assume "str_in k (c # cs)"
    then consider "starts_with (c # cs) k" | "str_in k cs" by auto
    then show "\<exists>pre post. c # cs = pre @ k @ post"
    proof cases
      case 1
      then obtain post where "c # cs = k @ post" by (auto simp: starts_with_iff)
      then have "c # cs = [] @ k @ post" by simp
      then show ?thesis by blast
    next
      case 2
      then obtain pre post where "cs = pre @ k @ post" using Cons.IH by blast
      then have "c # cs = (c # pre) @ k @ post" by simp
      then show ?thesis by blast
    qed
  next
    assume "\<exists>pre post. c # cs = pre @ k @ post"
    then obtain pre post where eq: "c # cs = pre @ k @ post" by blast
    show "str_in k (c # cs)"
    proof (cases pre)
      case Nil
      with eq have "starts_with (c # cs) k" by (auto simp: starts_with_iff)
      then show ?thesis by simp
    next
      case (Cons p ps)
      with eq have "cs = ps @ k @ post" by simp
      then have "str_in k cs" using Cons.IH by blast
      then show ?thesis by simp
    qed
  qed
qed

section \<open>Keyword and skill generator: results\<close>

text \<open>
  C9.  Whatever the title and the query, the keyword generator returns the five base
  keywords and the skill generator the five base skills: the terms appended for
  "senior", "analyst" and "manager" lie beyond the fifth place and are cut off.
\<close>

theorem generators_constant:
  "generate_keywords title query =
     [''Third Party Risk Management'', ''Vendor Risk Assessment'', ''Supplier Risk Analysis'',
      ''Risk Mitigation'', ''Compliance Management''] \<and>
   length (generate_keywords title query) = 5 \<and>
   generate_technical_skills title query =
     [''GRC Tools (Archer, ServiceNow)'', ''Risk Assessment Frameworks'',
      ''SQL and Data Analysis'', ''Excel/Advanced Analytics'',
      ''Regulatory Compliance (SOX, GDPR)''] \<and>
   length (generate_technical_skills title query) = 5"
  by (simp add: generate_keywords_def base_keywords_def generate_technical_skills_def
      base_technical_skills_def Let_def)

text \<open>
  C1.  The title "Senior Risk Analyst" contains "senior", and yet neither
  "Senior Risk Analyst" nor "Risk Leadership" is among the keywords generated for it.
\<close>

theorem senior_terms_dropped:
  "str_in ''senior'' (lower ''Senior Risk Analyst'') \<and>
   ''Senior Risk Analyst'' \<notin>
     set (generate_keywords ''Senior Risk Analyst'' ''Third Party Risk Assessment'') \<and>
   ''Risk Leadership'' \<notin>
     set (generate_keywords ''Senior Risk Analyst'' ''Third Party Risk Assessment'')"
  by code_simp

section \<open>Relevance filter: results\<close>

lemma relevant_loop_filter: "relevant_loop js acc = acc @ filter is_relevant js"
  by (induction js arbitrary: acc) auto

lemma relevance_filter_filter: "relevance_filter js = filter is_relevant js"
  by (simp add: relevance_filter_def relevant_loop_filter)

lemma is_relevant_iff:
  "is_relevant job \<longleftrightarrow>
     (\<exists>keyword \<in> {''risk'', ''compliance'', ''vendor'', ''supplier'', ''third party'', ''tprm''}.
        \<exists>pre post. lower (job_title job) = pre @ keyword @ post)"
  unfolding is_relevant_def relevance_keywords_def list_ex_iff str_in_iff by simp

text \<open>
  C5.  Filtering a filtered list changes nothing.
\<close>

theorem relevance_filter_idempotent:
  "relevance_filter (relevance_filter js) = relevance_filter js"
  by (simp add: relevance_filter_filter)

text \<open>
  C6.  The filter is a total function from lists to lists, and it returns, in their
  order, exactly the postings whose lower-cased title has one of the six keywords as a
  substring.
\<close>

theorem relevance_filter_exact:
  "relevance_filter js =
     filter (\<lambda>job. \<exists>keyword \<in> {''risk'', ''compliance'', ''vendor'', ''supplier'',
                                 ''third party'', ''tprm''}.
                \<exists>pre post. lower (job_title job) = pre @ keyword @ post) js"
  unfolding relevance_filter_filter using is_relevant_iff by presburger

theorem relevance_filter_exact_witness:
  "filter (\<lambda>job. \<exists>keyword \<in> {''risk'', ''compliance'', ''vendor'', ''supplier'',
                              ''third party'', ''tprm''}.
             \<exists>pre post. lower (job_title job) = pre @ keyword @ post) sample_jobs =
   [hd sample_jobs]"
proof -
  have "relevance_filter sample_jobs = [hd sample_jobs]" by code_simp
  then show ?thesis using relevance_filter_exact [of sample_jobs] by simp
qed

section \<open>Search fetcher: results\<close>

lemma new_JobListing_state:
  "new_JobListing w t c l k sk s = (r, s') \<Longrightarrow> trace s' = trace s \<and> store s' = store s"
  by (auto simp: new_JobListing_def Let_def split: option.splits)

lemma new_JobListing_error:
  "new_JobListing w t c l k sk s = (Inl e, s') \<Longrightarrow> is_Exception e"
  by (auto simp: new_JobListing_def Let_def split: option.splits)

text \<open>The inner loop touches neither the trace nor the store, and it always returns:
  the only exception in it is the validation error, which its handler catches.\<close>

lemma parse_result_state:
  assumes "parse_result w q r acc s = (res, s')"
  shows "trace s' = trace s \<and> store s' = store s \<and> (\<exists>acc'. res = Inr acc')"
proof (cases "h3_text r")
  case None
  with assms show ?thesis by (auto simp: parse_result_def)
next
  case (Some title)
  show ?thesis
  proof (cases "a_href r")
    case None
    with Some assms show ?thesis by (auto simp: parse_result_def)
  next
    case (Some href)
    obtain r0 s1 where n: "new_JobListing w title (extract_company_name (st_text r)) href
        (generate_keywords title q) (generate_technical_skills title q) s = (r0, s1)"
      by (cases "new_JobListing w title (extract_company_name (st_text r)) href
        (generate_keywords title q) (generate_technical_skills title q) s")
    from new_JobListing_state [OF n] have st: "trace s1 = trace s" "store s1 = store s"
      by simp_all
    show ?thesis
    proof (cases r0)
      case (Inl e)
      with n have "is_Exception e" by (auto dest: new_JobListing_error)
      then obtain m where "e = Exception m" by (cases e) simp_all
      with assms \<open>h3_text r = Some title\<close> Some n Inl st show ?thesis
        by (auto simp: parse_result_def)
    next
      case (Inr job)
      with assms \<open>h3_text r = Some title\<close> Some n st show ?thesis
        by (auto simp: parse_result_def)
    qed
  qed
qed

lemma parse_results_state:
  "parse_results w q rs acc s = (res, s') \<Longrightarrow>
   trace s' = trace s \<and> store s' = store s \<and> (\<exists>acc'. res = Inr acc')"
proof (induction rs arbitrary: acc s)
  case Nil
  then show ?case by auto
next
  case (Cons r rs)
  obtain res1 s1 where step: "parse_result w q r acc s = (res1, s1)"
    by (cases "parse_result w q r acc s")
  from parse_result_state [OF step] obtain acc1 where
    s1: "trace s1 = trace s" "store s1 = store s" "res1 = Inr acc1"
    by blast
  with Cons.prems step have "parse_results w q rs acc1 s1 = (res, s')" by simp
  from Cons.IH [OF this] s1 show ?case by simp
qed

text \<open>What one template adds to the trace: its request, and the pause only when the
  response had status 200 and its body was read.\<close>

lemma search_one_trace:
  assumes "search_one w q t acc s = (res, s')"
  shows "trace s' = trace s @
           (case http_get w (length (trace s)) (google_url t) of
              Response status (Inr page) \<Rightarrow>
                if status = 200 then [HttpGet (google_url t), Sleep 1] else [HttpGet (google_url t)]
            | _ \<Rightarrow> [HttpGet (google_url t)]) \<and>
         store s' = store s"
proof (cases "http_get w (length (trace s)) (google_url t)")
  case (GetRaises e)
  with assms have "s' = emit (HttpGet (google_url t)) s"
    by (simp add: search_one_def Let_def)
  with GetRaises show ?thesis by (simp add: emit_def)
next
  case (Response status body)
  show ?thesis
  proof (cases "status = 200 \<and> (\<exists>page. body = Inr page)")
    case False
    with assms Response have "s' = emit (HttpGet (google_url t)) s"
      by (cases body) (auto simp: search_one_def Let_def split: if_splits)
    with Response False show ?thesis by (cases body) (auto simp: emit_def)
  next
    case True
    then obtain page where body: "body = Inr page" and st: "status = 200" by blast
    obtain res2 s2 where
      pr: "parse_results w q (take 10 page) acc (emit (HttpGet (google_url t)) s) = (res2, s2)"
      by (cases "parse_results w q (take 10 page) acc (emit (HttpGet (google_url t)) s)")
    from parse_results_state [OF pr] obtain acc2 where
      s2: "trace s2 = trace s @ [HttpGet (google_url t)]" "store s2 = store s" "res2 = Inr acc2"
      by (auto simp: emit_def)
    from assms Response body st pr s2(3) have "s' = emit (Sleep 1) s2"
      by (simp add: search_one_def Let_def)
    with s2 Response body st show ?thesis by (simp add: emit_def)
  qed
qed

lemma search_one_state:
  assumes "search_one w q t acc s = (res, s')"
  shows "\<exists>es. trace s' = trace s @ es \<and> (\<forall>e \<in> set es. is_fetch_event e) \<and> store s' = store s"
proof -
  let ?es = "case http_get w (length (trace s)) (google_url t) of
              Response status (Inr page) \<Rightarrow>
                if status = 200 then [HttpGet (google_url t), Sleep 1] else [HttpGet (google_url t)]
            | _ \<Rightarrow> [HttpGet (google_url t)]"
  have "\<forall>e \<in> set ?es. is_fetch_event e"
    by (auto split: http_outcome.splits sum.splits)
  with search_one_trace [OF assms] show ?thesis by blast
qed

lemma search_all_state:
  "search_all w q ts acc s = (res, s') \<Longrightarrow>
   \<exists>es. trace s' = trace s @ es \<and> (\<forall>e \<in> set es. is_fetch_event e) \<and> store s' = store s"
proof (induction ts arbitrary: acc s)
  case Nil
  then show ?case by simp
next
  case (Cons t ts)
  obtain res1 s1 where step: "search_one w q t acc s = (res1, s1)"
    by (cases "search_one w q t acc s")
  from search_one_state [OF step] obtain es1 where
    es1: "trace s1 = trace s @ es1" "\<forall>e \<in> set es1. is_fetch_event e" "store s1 = store s"
    by blast
  show ?case
  proof (cases res1)
    case (Inl e)
    with Cons.prems step have "s' = s1" by simp
    with es1 show ?thesis by blast
  next
    case (Inr acc1)
    with Cons.prems step have "search_all w q ts acc1 s1 = (res, s')" by simp
    from Cons.IH [OF this] obtain es2 where
      es2: "trace s' = trace s1 @ es2" "\<forall>e \<in> set es2. is_fetch_event e" "store s' = store s1"
      by blast
    from es1 es2 have "trace s' = trace s @ (es1 @ es2) \<and>
        (\<forall>e \<in> set (es1 @ es2). is_fetch_event e) \<and> store s' = store s"
      by auto
    then show ?thesis by blast
  qed
qed









lemma daily_search_state:
  "\<exists>es. trace (snd (daily_search w s)) = trace s @ es \<and> (\<forall>e \<in> set es. is_fetch_event e) \<and>
        store (snd (daily_search w s)) = store s"
proof -
  have "search_all w ''Third Party Risk Assessment'' (search_queries ''Third Party Risk Assessment'') [] s
        = (fst (daily_search w s), snd (daily_search w s))"
    by (simp add: daily_search_def search_jobs_google_def)
  then show ?thesis by (rule search_all_state)
qed


text \<open>
  C4.  Two calls of the fetcher that differ only in \<open>days_filter\<close> return the same
  postings and leave the same state, hence the same requests in the same order; and the
  manual search endpoint gives the same response for two requests that differ only in
  \<open>days_filter\<close>.
\<close>

theorem days_filter_noninterference:
  "search_jobs_google w query loc d1 s = search_jobs_google w query loc d2 s \<and>
   search_jobs_endpoint w (request\<lparr>req_days_filter := d1\<rparr>) s =
     search_jobs_endpoint w (request\<lparr>req_days_filter := d2\<rparr>) s"
  by (simp add: search_jobs_google_def search_jobs_endpoint_def Let_def
      split: prod.splits sum.splits)

text \<open>
  C7.  A provider that answers every request with status 503: the run issues its six
  requests one after the other, and its trace holds no pause at all.
\<close>

theorem no_pause_after_failed_request:
  "trace (snd (search_jobs_google world_503 ''Third Party Risk Assessment'' ''India'' 7 s0)) =
     map (\<lambda>t. HttpGet (google_url t)) (search_queries ''Third Party Risk Assessment'') \<and>
   length (search_queries ''Third Party Risk Assessment'') = 6 \<and>
   Sleep 1 \<notin> set (trace (snd (search_jobs_google world_503 ''Third Party Risk Assessment'' ''India'' 7 s0)))"
  by (simp add: search_jobs_google_def search_queries_def search_one_def world_503_def
      world_ok_def s0_def emit_def Let_def)

section \<open>Mailer: results\<close>

lemma smtp_call_state:
  "smtp_call w op s = (r, s') \<Longrightarrow> trace s' = trace s @ [Smtp op] \<and> store s' = store s"
  by (auto simp: smtp_call_def emit_def split: option.splits)

lemma send_email_try_state:
  assumes "send_email_try w js rcpt s = (r, s')"
  shows "\<exists>es. trace s' = trace s @ es \<and> (\<forall>e \<in> set es. is_smtp_event e) \<and> store s' = store s"
proof -
  have "\<exists>es. trace s' = trace s @ es \<and> (\<forall>e \<in> set es. \<exists>op. e = Smtp op) \<and> store s' = store s"
    using assms
    unfolding send_email_try_def Let_def
    by (auto split: sum.splits prod.splits dest!: smtp_call_state)
  then show ?thesis by fastforce
qed

lemma send_email_report_state:
  assumes "send_email_report w js rcpt s = (r, s')"
  shows "\<exists>es. trace s' = trace s @ es \<and> (\<forall>e \<in> set es. is_smtp_event e) \<and> store s' = store s"
proof -
  obtain r0 where "send_email_try w js rcpt s = (r0, s')"
    using assms by (auto simp: send_email_report_def split: prod.splits sum.splits)
  then show ?thesis by (rule send_email_try_state)
qed

text \<open>What the \<open>try\<close> of the mailer raises is what the MIME library or the relay raised.\<close>

lemma smtp_call_error:
  "smtp_call w op s = (Inl e, s') \<Longrightarrow> \<exists>n. smtp_fault w n op = Some e"
  by (auto simp: smtp_call_def split: option.splits)

lemma mime_step_error: "mime_step w s = Inl e \<Longrightarrow> \<exists>n. mime_fault w n = Some e"
  by (auto simp: mime_step_def split: option.splits)

lemma send_email_try_error:
  assumes "fst (send_email_try w js rcpt s) = Inl e"
  shows "(\<exists>n. mime_fault w n = Some e) \<or> (\<exists>n op. smtp_fault w n op = Some e)"
  using assms
  unfolding send_email_try_def Let_def
  by (auto split: sum.splits prod.splits dest: smtp_call_error mime_step_error)

lemma send_email_report_caught:
  "fst (send_email_try w js rcpt s) = Inl (Exception m) \<Longrightarrow>
   fst (send_email_report w js rcpt s) = Inr False"
  by (cases "send_email_try w js rcpt s") (simp add: send_email_report_def)

lemma send_email_report_passed_on:
  "fst (send_email_try w js rcpt s) = Inl (BaseException m) \<Longrightarrow>
   fst (send_email_report w js rcpt s) = Inl (BaseException m)"
  by (cases "send_email_try w js rcpt s") (simp add: send_email_report_def)

lemma send_email_report_returns:
  assumes "\<forall>n e. mime_fault w n = Some e \<longrightarrow> is_Exception e"
    and "\<forall>n op e. smtp_fault w n op = Some e \<longrightarrow> is_Exception e"
  shows "\<exists>b. fst (send_email_report w js rcpt s) = Inr b"
proof (cases "fst (send_email_try w js rcpt s)")
  case (Inl e)
  from send_email_try_error [OF Inl] assms have "is_Exception e" by blast
  then obtain m where "e = Exception m" by (cases e) simp_all
  with Inl show ?thesis by (auto dest: send_email_report_caught)
next
  case (Inr b)
  then show ?thesis
    by (cases "send_email_try w js rcpt s") (simp add: send_email_report_def)
qed

text \<open>
  C3, as the code has it.  For every world, list of postings, recipient and state:
  an instance of \<open>Exception\<close> raised in the \<open>try\<close> of the mailer is not propagated and
  gives \<open>False\<close>; an exception that is not an instance of \<open>Exception\<close> raised there
  reaches the caller; when the MIME library and the mail relay raise nothing but
  instances of \<open>Exception\<close>, the mailer returns a boolean; and the boolean \<open>True\<close> is
  returned exactly when none of the seven steps that can raise (building the message,
  connect, starttls, login, message to text, sendmail, quit) does.
\<close>

theorem mailer_catches_Exception:
  "(\<forall>m. fst (send_email_try w js rcpt s) = Inl (Exception m) \<longrightarrow>
        fst (send_email_report w js rcpt s) = Inr False) \<and>
   (\<forall>m. fst (send_email_try w js rcpt s) = Inl (BaseException m) \<longrightarrow>
        fst (send_email_report w js rcpt s) = Inl (BaseException m)) \<and>
   ((\<forall>n e. mime_fault w n = Some e \<longrightarrow> is_Exception e) \<and>
    (\<forall>n op e. smtp_fault w n op = Some e \<longrightarrow> is_Exception e) \<longrightarrow>
    (\<exists>b. fst (send_email_report w js rcpt s) = Inr b)) \<and>
   (fst (send_email_report w js rcpt s) = Inr True \<longleftrightarrow>
      mime_fault w (length (trace s)) = None \<and>
      smtp_fault w (length (trace s)) (SmtpConnect ''smtp.gmail.com'' 587) = None \<and>
      smtp_fault w (length (trace s) + 1) SmtpStartTls = None \<and>
      smtp_fault w (length (trace s) + 2) (SmtpLogin EMAIL_ADDRESS (email_password w)) = None \<and>
      mime_fault w (length (trace s) + 3) = None \<and>
      smtp_fault w (length (trace s) + 3)
        (SmtpSendMail EMAIL_ADDRESS rcpt (compose w js rcpt s)) = None \<and>
      smtp_fault w (length (trace s) + 4) SmtpQuit = None)"
proof (intro conjI allI impI)
  fix m assume "fst (send_email_try w js rcpt s) = Inl (Exception m)"
  then show "fst (send_email_report w js rcpt s) = Inr False"
    by (rule send_email_report_caught)
next
  fix m assume "fst (send_email_try w js rcpt s) = Inl (BaseException m)"
  then show "fst (send_email_report w js rcpt s) = Inl (BaseException m)"
    by (rule send_email_report_passed_on)
next
  assume "(\<forall>n e. mime_fault w n = Some e \<longrightarrow> is_Exception e) \<and>
    (\<forall>n op e. smtp_fault w n op = Some e \<longrightarrow> is_Exception e)"
  then show "\<exists>b. fst (send_email_report w js rcpt s) = Inr b"
    using send_email_report_returns by blast
next
  have ne: "except_Exception e False \<noteq> Inr True" for e
    by (cases e) simp_all
  show "fst (send_email_report w js rcpt s) = Inr True \<longleftrightarrow>
      mime_fault w (length (trace s)) = None \<and>
      smtp_fault w (length (trace s)) (SmtpConnect ''smtp.gmail.com'' 587) = None \<and>
      smtp_fault w (length (trace s) + 1) SmtpStartTls = None \<and>
      smtp_fault w (length (trace s) + 2) (SmtpLogin EMAIL_ADDRESS (email_password w)) = None \<and>
      mime_fault w (length (trace s) + 3) = None \<and>
      smtp_fault w (length (trace s) + 3)
        (SmtpSendMail EMAIL_ADDRESS rcpt (compose w js rcpt s)) = None \<and>
      smtp_fault w (length (trace s) + 4) SmtpQuit = None"
    unfolding send_email_report_def send_email_try_def Let_def mime_step_def smtp_call_def emit_def
    by (auto split: option.splits simp: eval_nat_numeral ne)
qed

theorem mailer_catches_Exception_witness:
  "fst (send_email_try world_login_fails sample_jobs EMAIL_ADDRESS s0) =
     Inl (Exception ''535 bad credentials'') \<and>
   fst (send_email_report world_login_fails sample_jobs EMAIL_ADDRESS s0) = Inr False \<and>
   fst (send_email_try world_login_interrupted sample_jobs EMAIL_ADDRESS s0) =
     Inl (BaseException ''KeyboardInterrupt'') \<and>
   fst (send_email_report world_login_interrupted sample_jobs EMAIL_ADDRESS s0) =
     Inl (BaseException ''KeyboardInterrupt'')"
proof -
  have h1: "fst (send_email_try world_login_fails sample_jobs EMAIL_ADDRESS s0) =
      Inl (Exception ''535 bad credentials'')"
    by (simp add: send_email_try_def mime_step_def smtp_call_def emit_def Let_def
        world_login_fails_def world_ok_def s0_def)
  have h2: "fst (send_email_try world_login_interrupted sample_jobs EMAIL_ADDRESS s0) =
      Inl (BaseException ''KeyboardInterrupt'')"
    by (simp add: send_email_try_def mime_step_def smtp_call_def emit_def Let_def
        world_login_interrupted_def world_ok_def s0_def)
  from h1 mailer_catches_Exception [of world_login_fails sample_jobs EMAIL_ADDRESS s0]
  have "fst (send_email_report world_login_fails sample_jobs EMAIL_ADDRESS s0) = Inr False"
    by blast
  moreover
  from h2 mailer_catches_Exception [of world_login_interrupted sample_jobs EMAIL_ADDRESS s0]
  have "fst (send_email_report world_login_interrupted sample_jobs EMAIL_ADDRESS s0) =
      Inl (BaseException ''KeyboardInterrupt'')"
    by blast
  ultimately show ?thesis using h1 h2 by blast
qed

text \<open>
  C3, as it is stated, fails: when \<open>login\<close> is cut short by a \<open>KeyboardInterrupt\<close>, the
  mailer returns no boolean and the interrupt reaches its caller.
\<close>

theorem mailer_propagates_interrupt:
  "fst (send_email_report world_login_interrupted sample_jobs EMAIL_ADDRESS s0) =
     Inl (BaseException ''KeyboardInterrupt'')"
  by (simp add: send_email_report_def send_email_try_def mime_step_def smtp_call_def emit_def
      Let_def world_login_interrupted_def world_ok_def s0_def)

section \<open>Result store and handlers: results\<close>

text \<open>
  C8.  When the collection holds no document and the data base answers the query,
  \<open>GET /job-results\<close> responds with status 200 and the empty list.
\<close>

theorem get_job_results_empty:
  "store s = [] \<Longrightarrow> db_fault w (length (trace s)) = None \<Longrightarrow>
   fst (get_job_results w s) = Ok200 []"
  by (simp add: get_job_results_def find_recent_def)

theorem get_job_results_empty_witness:
  "store s0 = [] \<and> db_fault world_ok (length (trace s0)) = None \<and>
   fst (get_job_results world_ok s0) = Ok200 []"
proof -
  have h1: "store s0 = []" by (simp add: s0_def)
  have h2: "db_fault world_ok (length (trace s0)) = None" by (simp add: world_ok_def)
  from h1 h2 get_job_results_empty [OF h1 h2] show ?thesis by simp
qed

section \<open>Pipeline run: results\<close>

lemma daily_task_snd: "snd (daily_job_search_task w s) = snd (daily_try w s)"
  by (simp add: daily_job_search_task_def split: prod.splits sum.splits)




text \<open>A run whose search does not return ends there.\<close>

lemma daily_try_search_raises:
  assumes "fst (daily_search w s) = Inl e"
  shows "daily_try w s = (Inl e, snd (daily_search w s))"
proof -
  from assms have "search_jobs_google w ''Third Party Risk Assessment''
      ''Bangalore India OR remote'' 7 s = (Inl e, snd (daily_search w s))"
    by (cases "daily_search w s") (simp add: daily_search_def)
  then show ?thesis by (simp add: daily_try_def)
qed

text \<open>A run whose search returns goes on to the insert, and from a successful insert to
  the mailer.\<close>

lemma daily_try_insert_raises:
  assumes "fst (daily_search w s) = Inr found"
    and "db_fault w (length (trace (snd (daily_search w s)))) = Some e"
  shows "daily_try w s = (Inl e, emit (DbInsert (daily_result w s)) (snd (daily_search w s)))"
proof -
  from assms(1) have r: "search_jobs_google w ''Third Party Risk Assessment''
      ''Bangalore India OR remote'' 7 s = (Inr found, snd (daily_search w s))"
    by (cases "daily_search w s") (simp add: daily_search_def)
  have doc: "daily_result w s = \<lparr>jobs = relevance_filter found,
                  total_count = int (length (relevance_filter found)),
                  search_query = ''Third Party Risk Assessment'',
                  search_date = now w (snd (daily_search w s))\<rparr>"
    using assms(1) by (simp add: daily_result_def daily_found_def)
  show ?thesis
    using assms(2) by (simp add: daily_try_def r Let_def insert_one_def doc)
qed

lemma daily_try_mail:
  assumes "fst (daily_search w s) = Inr found"
    and "db_fault w (length (trace (snd (daily_search w s)))) = None"
  shows "daily_try w s =
           (case fst (daily_mail w s) of Inl e \<Rightarrow> Inl e | Inr sent \<Rightarrow> Inr (),
            snd (daily_mail w s))"
proof -
  from assms(1) have r: "search_jobs_google w ''Third Party Risk Assessment''
      ''Bangalore India OR remote'' 7 s = (Inr found, snd (daily_search w s))"
    by (cases "daily_search w s") (simp add: daily_search_def)
  have doc: "daily_result w s = \<lparr>jobs = relevance_filter found,
                  total_count = int (length (relevance_filter found)),
                  search_query = ''Third Party Risk Assessment'',
                  search_date = now w (snd (daily_search w s))\<rparr>"
    using assms(1) by (simp add: daily_result_def daily_found_def)
  have j: "jobs (daily_result w s) = relevance_filter found"
    by (simp add: doc)
  show ?thesis
    using assms(2)
    by (simp add: daily_try_def r Let_def insert_one_def daily_mail_def daily_stored_def j
        doc [symmetric] split: prod.splits sum.splits)
qed

text \<open>
  The shape of a run.  Either the search passes an exception on, and the run has
  performed fetch effects only; or it performs fetch effects, then the insert of the
  record, then mail effects, where the record is in the store exactly when the insert
  did not raise, and no mail effect follows an insert that raised.
\<close>

lemma daily_try_shape:
  "\<exists>es1. (\<forall>e \<in> set es1. is_fetch_event e) \<and>
     ((\<exists>e. fst (daily_search w s) = Inl e) \<and>
        trace (snd (daily_try w s)) = trace s @ es1 \<and>
        store (snd (daily_try w s)) = store s
      \<or>
      (\<exists>found. fst (daily_search w s) = Inr found) \<and>
        (\<exists>es3. trace (snd (daily_try w s)) = trace s @ es1 @ DbInsert (daily_result w s) # es3 \<and>
           (\<forall>e \<in> set es3. is_smtp_event e) \<and>
           (if db_fault w (length (trace (snd (daily_search w s)))) = None
            then store (snd (daily_try w s)) = store s @ [daily_result w s]
            else store (snd (daily_try w s)) = store s \<and> es3 = [])))"
proof -
  from daily_search_state [of w s] obtain es1 where
    es1: "trace (snd (daily_search w s)) = trace s @ es1" "\<forall>e \<in> set es1. is_fetch_event e"
      "store (snd (daily_search w s)) = store s"
    by blast
  show ?thesis
  proof (cases "fst (daily_search w s)")
    case (Inl e)
    from daily_try_search_raises [OF Inl] es1 Inl show ?thesis by auto
  next
    case (Inr found)
    show ?thesis
    proof (cases "db_fault w (length (trace (snd (daily_search w s))))")
      case (Some e)
      from daily_try_insert_raises [OF Inr Some] es1
      have "trace (snd (daily_try w s)) = trace s @ es1 @ DbInsert (daily_result w s) # [] \<and>
          (\<forall>e \<in> set ([]::event list). is_smtp_event e) \<and>
          store (snd (daily_try w s)) = store s \<and> ([]::event list) = []"
        by (simp add: emit_def)
      with Some Inr es1(2) show ?thesis by auto
    next
      case None
      obtain b s3 where m: "daily_mail w s = (b, s3)" by (cases "daily_mail w s")
      then have "send_email_report w (jobs (daily_result w s)) EMAIL_ADDRESS (daily_stored w s)
          = (b, s3)"
        by (simp add: daily_mail_def)
      from send_email_report_state [OF this] obtain es3 where
        es3: "trace s3 = trace (daily_stored w s) @ es3" "\<forall>e \<in> set es3. is_smtp_event e"
          "store s3 = store (daily_stored w s)"
        by blast
      from daily_try_mail [OF Inr None] m have "snd (daily_try w s) = s3" by simp
      with es1 es3
      have "trace (snd (daily_try w s)) = trace s @ es1 @ DbInsert (daily_result w s) # es3 \<and>
          store (snd (daily_try w s)) = store s @ [daily_result w s]"
        by (simp add: daily_stored_def emit_def)
      with None Inr es1(2) es3(2) show ?thesis by auto
    qed
  qed
qed

lemma daily_result_count: "total_count (daily_result w s) = int (length (jobs (daily_result w s)))"
  by (simp add: daily_result_def)


lemma daily_store:
  "store (snd (daily_job_search_task w s)) =
     (if (\<exists>found. fst (daily_search w s) = Inr found) \<and>
         db_fault w (length (trace (snd (daily_search w s)))) = None
      then store s @ [daily_result w s] else store s)"
  using daily_try_shape [of w s] by (auto simp: daily_task_snd split: if_splits)

lemma daily_inserts:
  assumes "DbInsert d \<in> set (new_events s (snd (daily_job_search_task w s)))"
  shows "d = daily_result w s"
proof -
  from daily_try_shape [of w s] obtain es1 where
    f: "\<forall>e \<in> set es1. is_fetch_event e" and
    cases: "trace (snd (daily_try w s)) = trace s @ es1 \<or>
      (\<exists>es3. trace (snd (daily_try w s)) = trace s @ es1 @ DbInsert (daily_result w s) # es3 \<and>
           (\<forall>e \<in> set es3. is_smtp_event e))"
    by blast
  from cases show ?thesis
  proof
    assume "trace (snd (daily_try w s)) = trace s @ es1"
    then have "new_events s (snd (daily_job_search_task w s)) = es1"
      by (simp add: new_events_def daily_task_snd)
    with assms f show ?thesis by auto
  next
    assume "\<exists>es3. trace (snd (daily_try w s)) = trace s @ es1 @ DbInsert (daily_result w s) # es3 \<and>
           (\<forall>e \<in> set es3. is_smtp_event e)"
    then obtain es3 where
      tr: "trace (snd (daily_try w s)) = trace s @ es1 @ DbInsert (daily_result w s) # es3"
      and m: "\<forall>e \<in> set es3. is_smtp_event e"
      by blast
    from tr have "new_events s (snd (daily_job_search_task w s))
        = es1 @ DbInsert (daily_result w s) # es3"
      by (simp add: new_events_def daily_task_snd)
    with assms have "DbInsert d \<in> set es1 \<or> d = daily_result w s \<or> DbInsert d \<in> set es3"
      by auto
    with f m show ?thesis by auto
  qed
qed


lemma daily_insert_attempted:
  "fst (daily_search w s) = Inr found \<Longrightarrow>
   DbInsert (daily_result w s) \<in> set (new_events s (snd (daily_job_search_task w s)))"
  using daily_try_shape [of w s] by (auto simp: new_events_def daily_task_snd)



text \<open>Runs in the concrete worlds, evaluated.\<close>

lemma lower_sample_titles:
  "lower ''Senior Risk Analyst'' = ''senior risk analyst''"
  "lower ''Graphic Designer'' = ''graphic designer''"
  by code_simp+

lemma sample_search:
  assumes "http_get w = http_get world_ok" "uuid4 w = uuid4 world_ok" "clock w = clock world_ok"
  shows "fst (search_jobs_google w q l d s0) =
     Inr [\<lparr>listing_id = ''00000000-0000-4000-8000-000000000000'',
       job_title = ''Senior Risk Analyst'',
       company_name = extract_company_name (Some ''Hiring at Tech Corp India''),
       job_link = ''https://example.com/job1'',
       location = ''Bangalore, India / Remote'',
       keywords_list = generate_keywords ''Senior Risk Analyst'' q,
       technical_skills = generate_technical_skills ''Senior Risk Analyst'' q,
       posted_date = Some ''Recent (24 hours)'',
       source = ''google_search'',
       scraped_at = 1\<rparr>,
      \<lparr>listing_id = ''00000000-0000-4000-8000-000000000000'',
       job_title = ''Graphic Designer'',
       company_name = extract_company_name None,
       job_link = ''https://example.com/job2'',
       location = ''Bangalore, India / Remote'',
       keywords_list = generate_keywords ''Graphic Designer'' q,
       technical_skills = generate_technical_skills ''Graphic Designer'' q,
       posted_date = Some ''Recent (24 hours)'',
       source = ''google_search'',
       scraped_at = 1\<rparr>]"
  "trace (snd (search_jobs_google w q l d s0)) =
     HttpGet (google_url (search_queries q ! 0)) # Sleep 1 #
     map (\<lambda>t. HttpGet (google_url t)) (tl (search_queries q))"
  "store (snd (search_jobs_google w q l d s0)) = []"
  using assms
  by (simp_all add: search_jobs_google_def search_queries_def search_one_def parse_result_def
      new_JobListing_def now_def world_ok_def two_block_page_def s0_def emit_def Let_def)

lemma sample_daily_search:
  assumes "http_get w = http_get world_ok" "uuid4 w = uuid4 world_ok" "clock w = clock world_ok"
  shows "\<exists>found. fst (daily_search w s0) = Inr found"
  by (simp add: daily_search_def sample_search(1) [OF assms])

lemma sample_daily_result:
  assumes "http_get w = http_get world_ok" "uuid4 w = uuid4 world_ok" "clock w = clock world_ok"
  shows "map job_title (jobs (daily_result w s0)) = [''Senior Risk Analyst'']"
    and "total_count (daily_result w s0) = 1"
  by (simp_all add: daily_result_def daily_found_def daily_search_def sample_search(1) [OF assms]
      relevance_filter_filter is_relevant_def relevance_keywords_def lower_sample_titles)

text \<open>
  C2.  The response of the manual search endpoint, every record a pipeline run hands to
  the store, and every record in the store after a run (given that those in it before
  had the property) has a \<open>total_count\<close> equal to the length of its \<open>jobs\<close>.
\<close>

theorem total_count_is_length:
  "(\<forall>r. fst (search_jobs_endpoint w request s) = Ok200 r \<longrightarrow>
        total_count r = int (length (jobs r))) \<and>
   (\<forall>d. DbInsert d \<in> set (new_events s (snd (daily_job_search_task w s))) \<longrightarrow>
        total_count d = int (length (jobs d))) \<and>
   ((\<forall>d \<in> set (store s). total_count d = int (length (jobs d))) \<longrightarrow>
    (\<forall>d \<in> set (store (snd (daily_job_search_task w s))).
        total_count d = int (length (jobs d))))"
proof (intro conjI allI impI)
  fix r assume a: "fst (search_jobs_endpoint w request s) = Ok200 r"
  have ne: "except_raise_500 e \<noteq> Ok200 r" for e
    by (cases e) simp_all
  from a ne show "total_count r = int (length (jobs r))"
    by (auto simp: search_jobs_endpoint_def Let_def split: prod.splits sum.splits)
next
  fix d assume "DbInsert d \<in> set (new_events s (snd (daily_job_search_task w s)))"
  then have "d = daily_result w s" by (rule daily_inserts)
  then show "total_count d = int (length (jobs d))" by (simp add: daily_result_count)
next
  assume "\<forall>d \<in> set (store s). total_count d = int (length (jobs d))"
  then show "\<forall>d \<in> set (store (snd (daily_job_search_task w s))).
      total_count d = int (length (jobs d))"
    by (auto simp: daily_store daily_result_count)
qed

theorem total_count_is_length_witness:
  "(\<exists>r. fst (search_jobs_endpoint world_ok sample_request s0) = Ok200 r \<and>
        total_count r = int (length (jobs r))) \<and>
   DbInsert (daily_result world_ok s0) \<in>
     set (new_events s0 (snd (daily_job_search_task world_ok s0))) \<and>
   total_count (daily_result world_ok s0) = int (length (jobs (daily_result world_ok s0))) \<and>
   total_count (daily_result world_ok s0) = 1 \<and>
   store s0 = [] \<and>
   store (snd (daily_job_search_task world_ok s0)) = [daily_result world_ok s0]"
proof -
  obtain found s1 where f: "search_jobs_google world_ok (req_query sample_request)
      (req_location sample_request) (req_days_filter sample_request) s0 = (Inr found, s1)"
    using sample_search(1) [of world_ok "req_query sample_request"
        "req_location sample_request" "req_days_filter sample_request"]
    by (cases "search_jobs_google world_ok (req_query sample_request)
          (req_location sample_request) (req_days_filter sample_request) s0") simp
  then have "\<exists>r. fst (search_jobs_endpoint world_ok sample_request s0) = Ok200 r"
    by (simp add: search_jobs_endpoint_def Let_def)
  then obtain r where r: "fst (search_jobs_endpoint world_ok sample_request s0) = Ok200 r"
    by blast
  obtain found0 where f0: "fst (daily_search world_ok s0) = Inr found0"
    using sample_daily_search [of world_ok] by auto
  have ins: "DbInsert (daily_result world_ok s0) \<in>
      set (new_events s0 (snd (daily_job_search_task world_ok s0)))"
    using f0 by (rule daily_insert_attempted)
  have one: "total_count (daily_result world_ok s0) = 1"
    by (rule sample_daily_result) simp_all
  have st0: "store s0 = []" by (simp add: s0_def)
  have st: "store (snd (daily_job_search_task world_ok s0)) = [daily_result world_ok s0]"
    by (simp add: daily_store st0 f0) (simp add: world_ok_def)
  from total_count_is_length [of world_ok sample_request s0] r ins
  have "total_count r = int (length (jobs r))"
    and "total_count (daily_result world_ok s0) = int (length (jobs (daily_result world_ok s0)))"
    by blast+
  with r ins one st0 st show ?thesis by blast
qed







end
